theory Spec2Isabelle
  imports Complex_Main "HOL-Library.AList"
begin

section \<open>Python strings\<close>

text \<open>
  A Python \<open>str\<close> is modelled as a \<open>string\<close>, each \<open>char\<close> standing for one code
  point below 256. The functions of this section are the \<open>str\<close> methods the two
  scripts call: \<open>strip()\<close>, \<open>strip("/")\<close>, \<open>replace("\\", "/")\<close>, \<open>split("/")\<close>,
  \<open>"/".join(...)\<close>, \<open>startswith\<close> and \<open>endswith\<close>.
\<close>

datatype py_error = ValueError string | TypeError | RuntimeError | OSError

definition is_space :: "char \<Rightarrow> bool" where
  \<comment> \<open>\<open>str.isspace\<close> on the code points below 256: TAB..CR, FS..US, SPACE, NEL, NBSP.\<close>
  "is_space c =
     (let n = (of_char c :: nat)
      in (9 \<le> n \<and> n \<le> 13) \<or> (28 \<le> n \<and> n \<le> 32) \<or> n = 133 \<or> n = 160)"

definition lstrip_by :: "(char \<Rightarrow> bool) \<Rightarrow> string \<Rightarrow> string" where
  "lstrip_by P s = dropWhile P s"

definition rstrip_by :: "(char \<Rightarrow> bool) \<Rightarrow> string \<Rightarrow> string" where
  "rstrip_by P s = rev (dropWhile P (rev s))"

definition strip_by :: "(char \<Rightarrow> bool) \<Rightarrow> string \<Rightarrow> string" where
  "strip_by P s = rstrip_by P (lstrip_by P s)"

definition py_strip :: "string \<Rightarrow> string" where
  \<comment> \<open>\<open>s.strip()\<close>\<close>
  "py_strip s = strip_by is_space s"

definition strip_slash :: "string \<Rightarrow> string" where
  \<comment> \<open>\<open>s.strip("/")\<close>\<close>
  "strip_slash s = strip_by (\<lambda>c. c = CHR ''/'') s"

definition backslash :: char where
  "backslash = CHR 0x5C"

definition replace_backslash :: "string \<Rightarrow> string" where
  \<comment> \<open>\<open>s.replace("\\", "/")\<close>\<close>
  "replace_backslash s = map (\<lambda>c. if c = backslash then CHR ''/'' else c) s"

fun split_on :: "char \<Rightarrow> string \<Rightarrow> string list" where
  \<comment> \<open>\<open>s.split(sep)\<close> for a separator of one character; \<open>"".split("/")\<close> is \<open>[""]\<close>.\<close>
  "split_on sep [] = [[]]"
| "split_on sep (c # cs) =
     (if c = sep then [] # split_on sep cs
      else (c # hd (split_on sep cs)) # tl (split_on sep cs))"

fun join_with :: "string \<Rightarrow> string list \<Rightarrow> string" where
  \<comment> \<open>\<open>sep.join(parts)\<close>\<close>
  "join_with sep [] = []"
| "join_with sep [p] = p"
| "join_with sep (p # q # ps) = p @ sep @ join_with sep (q # ps)"

definition startswith :: "string \<Rightarrow> string \<Rightarrow> bool" where
  "startswith s p = (take (length p) s = p)"

definition endswith :: "string \<Rightarrow> string \<Rightarrow> bool" where
  "endswith s p = (length p \<le> length s \<and> drop (length s - length p) s = p)"

section \<open>JSON values\<close>

text \<open>
  What \<open>json.loads\<close> returns: \<open>None\<close>, \<open>bool\<close>, \<open>int\<close>, \<open>float\<close>, \<open>str\<close>, \<open>list\<close> and
  \<open>dict\<close>. A \<open>dict\<close> is an association list in insertion order; \<open>d.get(k)\<close> is
  \<open>map_of\<close>, \<open>d[k] = v\<close> is \<open>AList.update\<close> (an existing key keeps its place, a new one
  goes last) and \<open>d.pop(k)\<close> is \<open>AList.delete\<close>. Python's \<open>None\<close> is \<open>JNull\<close>.
\<close>

datatype json =
    JNull
  | JBool bool
  | JInt int
  | JFloat real
  | JStr string
  | JArr "json list"
  | JObj "(string \<times> json) list"

fun truthy :: "json \<Rightarrow> bool" where
  \<comment> \<open>\<open>bool(v)\<close>\<close>
  "truthy JNull = False"
| "truthy (JBool b) = b"
| "truthy (JInt i) = (i \<noteq> 0)"
| "truthy (JFloat x) = (x \<noteq> 0)"
| "truthy (JStr s) = (s \<noteq> [])"
| "truthy (JArr xs) = (xs \<noteq> [])"
| "truthy (JObj kvs) = (kvs \<noteq> [])"

definition py_or :: "json \<Rightarrow> json \<Rightarrow> json" where
  \<comment> \<open>\<open>a or b\<close>\<close>
  "py_or a b = (if truthy a then a else b)"

definition dict_get :: "(string \<times> json) list \<Rightarrow> string \<Rightarrow> json" where
  \<comment> \<open>\<open>d.get(k)\<close>, \<open>None\<close> when the key is missing\<close>
  "dict_get d k = (case map_of d k of Some v \<Rightarrow> v | None \<Rightarrow> JNull)"

definition dict_get_default :: "(string \<times> json) list \<Rightarrow> string \<Rightarrow> json \<Rightarrow> json" where
  \<comment> \<open>\<open>d.get(k, default)\<close>\<close>
  "dict_get_default d k dflt = (case map_of d k of Some v \<Rightarrow> v | None \<Rightarrow> dflt)"

definition has_key :: "(string \<times> json) list \<Rightarrow> string \<Rightarrow> bool" where
  \<comment> \<open>\<open>k in d\<close>\<close>
  "has_key d k = (map_of d k \<noteq> None)"

definition setdefault :: "string \<Rightarrow> json \<Rightarrow> (string \<times> json) list \<Rightarrow> (string \<times> json) list" where
  \<comment> \<open>\<open>d.setdefault(k, v)\<close>, as a statement\<close>
  "setdefault k v d = (if has_key d k then d else AList.update k v d)"

definition is_dict :: "json \<Rightarrow> bool" where
  "is_dict v = (case v of JObj _ \<Rightarrow> True | _ \<Rightarrow> False)"

definition is_str :: "json \<Rightarrow> bool" where
  "is_str v = (case v of JStr _ \<Rightarrow> True | _ \<Rightarrow> False)"

subsection \<open>A decoder for concrete documents\<close>

text \<open>
  The functions of the scripts take \<open>json.loads\<close> as a parameter \<open>loads\<close>, with \<open>None\<close>
  for \<open>JSONDecodeError\<close>, and every general theorem below holds for any such function.
  \<open>json_loads\<close> is the decoder used where a concrete document is decoded: it follows
  \<open>json.loads\<close> on the documents built from objects, arrays, strings without escape
  sequences, integers and \<open>true\<close>, \<open>false\<close>, \<open>null\<close>, with white space between the
  tokens, a repeated key keeping its last value; it answers \<open>None\<close> on every other text,
  also on the fractions, exponents and escape sequences it does not cover. The fuel is
  the length of the text, more than the nesting depth of any document of that length.
\<close>

definition json_ws :: "char \<Rightarrow> bool" where
  "json_ws c = (c = CHR '' '' \<or> c = CHR 0x09 \<or> c = CHR 0x0A \<or> c = CHR 0x0D)"

definition skip_ws :: "string \<Rightarrow> string" where
  "skip_ws s = dropWhile json_ws s"

definition is_digit :: "char \<Rightarrow> bool" where
  "is_digit c = (48 \<le> (of_char c :: nat) \<and> (of_char c :: nat) \<le> 57)"

definition digits_value :: "string \<Rightarrow> int" where
  "digits_value ds = foldl (\<lambda>acc c. 10 * acc + (int (of_char c) - 48)) 0 ds"

fun scan_string :: "string \<Rightarrow> (string \<times> string) option" where
  \<comment> \<open>the text after an opening quote: the string's characters, and what follows the closing quote\<close>
  "scan_string [] = None"
| "scan_string (c # cs) =
     (if c = CHR 0x22 then Some ([], cs)
      else if c = backslash \<or> (of_char c :: nat) < 32 then None
      else (case scan_string cs of
              None \<Rightarrow> None
            | Some (t, r) \<Rightarrow> Some (c # t, r)))"

definition scan_number :: "string \<Rightarrow> (json \<times> string) option" where
  "scan_number s =
     (let neg = startswith s ''-'' \<and> s \<noteq> [];
          s1 = (if neg then tl s else s);
          ds = takeWhile is_digit s1;
          ds' = (if startswith ds ''0'' \<and> ds \<noteq> [] then ''0'' else ds);
          r = drop (length ds') s1
      in if ds' = [] then None
         else if r \<noteq> [] \<and> (hd r = CHR ''.'' \<or> hd r = CHR ''e'' \<or> hd r = CHR ''E'') then None
         else Some (JInt (if neg then - digits_value ds' else digits_value ds'), r))"

fun parse_value :: "nat \<Rightarrow> string \<Rightarrow> (json \<times> string) option"
  and parse_items :: "nat \<Rightarrow> json list \<Rightarrow> string \<Rightarrow> (json \<times> string) option"
  and parse_members :: "nat \<Rightarrow> (string \<times> json) list \<Rightarrow> string \<Rightarrow> (json \<times> string) option"
where
  "parse_value 0 s = None"
| "parse_value (Suc n) s =
     (if s = [] then None
      else if hd s = CHR 0x22 then
        (case scan_string (tl s) of None \<Rightarrow> None | Some (t, r) \<Rightarrow> Some (JStr t, r))
      else if hd s = CHR ''{'' then
        (let s' = skip_ws (tl s)
         in if s' \<noteq> [] \<and> hd s' = CHR ''}'' then Some (JObj [], tl s')
            else parse_members n [] s')
      else if hd s = CHR ''['' then
        (let s' = skip_ws (tl s)
         in if s' \<noteq> [] \<and> hd s' = CHR '']'' then Some (JArr [], tl s')
            else parse_items n [] s')
      else if startswith s ''null'' then Some (JNull, drop 4 s)
      else if startswith s ''true'' then Some (JBool True, drop 4 s)
      else if startswith s ''false'' then Some (JBool False, drop 5 s)
      else scan_number s)"
| "parse_items 0 acc s = None"
| "parse_items (Suc n) acc s =
     (case parse_value n s of
        None \<Rightarrow> None
      | Some (v, r) \<Rightarrow>
          (let r' = skip_ws r
           in if r' \<noteq> [] \<and> hd r' = CHR '']'' then Some (JArr (acc @ [v]), tl r')
              else if r' \<noteq> [] \<and> hd r' = CHR '','' then parse_items n (acc @ [v]) (skip_ws (tl r'))
              else None))"
| "parse_members 0 acc s = None"
| "parse_members (Suc n) acc s =
     (if s = [] \<or> hd s \<noteq> CHR 0x22 then None
      else
        (case scan_string (tl s) of
           None \<Rightarrow> None
         | Some (k, r) \<Rightarrow>
             (let r1 = skip_ws r
              in if r1 = [] \<or> hd r1 \<noteq> CHR '':'' then None
                 else
                   (case parse_value n (skip_ws (tl r1)) of
                      None \<Rightarrow> None
                    | Some (v, r2) \<Rightarrow>
                        (let r3 = skip_ws r2
                         in if r3 \<noteq> [] \<and> hd r3 = CHR ''}'' then
                              Some (JObj (AList.update k v acc), tl r3)
                            else if r3 \<noteq> [] \<and> hd r3 = CHR '','' then
                              parse_members n (AList.update k v acc) (skip_ws (tl r3))
                            else None)))))"

definition json_loads :: "string \<Rightarrow> json option" where
  "json_loads s =
     (case parse_value (Suc (length s)) (skip_ws s) of
        None \<Rightarrow> None
      | Some (v, r) \<Rightarrow> if skip_ws r = [] then Some v else None)"

section \<open>pathlib on a POSIX host\<close>

text \<open>
  A \<open>Path\<close> is identified with its \<open>str\<close>. \<open>PurePosixPath\<close> keeps a root (\<open>/\<close>, or
  \<open>//\<close> for exactly two leading slashes) and the parts between slashes that are neither
  empty nor \<open>.\<close>; it never collapses \<open>..\<close>. The branch of the scripts for
  \<open>sys.platform\<close> starting with \<open>win\<close>, which runs on \<open>WindowsPath\<close>, is left out.
\<close>

definition posix_root :: "string \<Rightarrow> string" where
  "posix_root s =
     (if startswith s ''//'' \<and> \<not> startswith s ''///'' then ''//''
      else if startswith s ''/'' then ''/''
      else '''')"

definition posix_parts :: "string \<Rightarrow> string list" where
  "posix_parts s = filter (\<lambda>p. p \<noteq> '''' \<and> p \<noteq> ''.'') (split_on CHR ''/'' s)"

definition posix_format :: "string \<Rightarrow> string list \<Rightarrow> string" where
  "posix_format rt parts =
     (if rt = '''' \<and> parts = [] then ''.'' else rt @ join_with ''/'' parts)"

definition path_str :: "string \<Rightarrow> string" where
  \<comment> \<open>\<open>str(Path(s))\<close>\<close>
  "path_str s = posix_format (posix_root s) (posix_parts s)"

definition path_name :: "string \<Rightarrow> string" where
  \<comment> \<open>\<open>Path(s).name\<close>\<close>
  "path_name s = (if posix_parts s = [] then '''' else last (posix_parts s))"

definition path_join :: "string \<Rightarrow> string \<Rightarrow> string" where
  \<comment> \<open>\<open>str(Path(a) / b)\<close>\<close>
  "path_join a b =
     (if posix_root b \<noteq> '''' then path_str b
      else posix_format (posix_root a) (posix_parts a @ posix_parts b))"

section \<open>The host\<close>

text \<open>
  What the scripts read from their environment, as parameters: the home directory behind
  a leading \<open>~\<close> or \<open>~user\<close> part (\<open>None\<close> when it cannot be determined),
  \<open>Path.resolve\<close>, the file system's \<open>exists\<close>, \<open>is_dir\<close> and \<open>read_text\<close> (\<open>None\<close>
  for \<open>OSError\<close>), \<open>json.loads\<close> (\<open>None\<close> for \<open>JSONDecodeError\<close>), \<open>str\<close> on a value
  that is not a \<open>str\<close>, the successive readings of the clock by \<open>utc_now_iso_z\<close>,
  \<open>shutil.which\<close>, the variable \<open>OBSIDIAN_CLI_BIN\<close> (empty when unset) and
  \<open>subprocess.run\<close> with its captured text (\<open>None\<close> when it raises \<open>OSError\<close>).
\<close>

record completed =
  returncode :: int
  out_text :: string
  err_text :: string

record host =
  home_of :: "string \<Rightarrow> string option"
  resolve_path :: "string \<Rightarrow> string"
  path_exists :: "string \<Rightarrow> bool"
  path_is_dir :: "string \<Rightarrow> bool"
  read_text :: "string \<Rightarrow> string option"
  json_decode :: "string \<Rightarrow> json option"
  str_of :: "json \<Rightarrow> string"
  utc_now :: "nat \<Rightarrow> string"
  which :: "string \<Rightarrow> string option"
  environ_cli_bin :: string
  subprocess_run :: "string list \<Rightarrow> completed option"

definition expanduser :: "host \<Rightarrow> string \<Rightarrow> py_error + string" where
  \<comment> \<open>\<open>str(Path(s).expanduser())\<close>\<close>
  "expanduser h s =
     (let parts = posix_parts s
      in if posix_root s = '''' \<and> parts \<noteq> [] \<and> startswith (hd parts) ''~'' then
           (case home_of h (hd parts) of
              None \<Rightarrow> Inl RuntimeError
            | Some homedir \<Rightarrow>
                Inr (posix_format (posix_root homedir) (posix_parts homedir @ tl parts)))
         else Inr (path_str s))"

definition py_str :: "host \<Rightarrow> json \<Rightarrow> string" where
  \<comment> \<open>\<open>str(v)\<close>\<close>
  "py_str h v = (case v of JStr s \<Rightarrow> s | _ \<Rightarrow> str_of h v)"

section \<open>obsidian\_cli.py\<close>

record envelope =
  e_ok :: bool
  e_command :: "string list"
  e_exit_code :: int
  e_stdout :: string
  e_stderr :: string
  e_parsed :: json
  e_raw :: string
  e_binary :: string
  e_vault :: string
  e_ts :: string
  e_output_stderr_only :: "bool option"

definition default_cli_binary :: string where
  "default_cli_binary = ''obsidian''"

definition load_binary :: "host \<Rightarrow> string \<Rightarrow> string" where
  "load_binary h override =
     (let candidate = (if py_strip override \<noteq> '''' then py_strip override else environ_cli_bin h)
      in if candidate \<noteq> '''' then candidate else default_cli_binary)"

primrec to_iso_jsonable :: "json \<Rightarrow> json" where
  "to_iso_jsonable JNull = JNull"
| "to_iso_jsonable (JBool b) = JBool b"
| "to_iso_jsonable (JInt i) = JInt i"
| "to_iso_jsonable (JFloat x) = JFloat x"
| "to_iso_jsonable (JStr s) = JStr s"
| "to_iso_jsonable (JArr xs) = JArr (map to_iso_jsonable xs)"
| "to_iso_jsonable (JObj kvs) = JObj (map (map_prod id to_iso_jsonable) kvs)"

definition is_destructive :: "string list \<Rightarrow> bool \<Rightarrow> string option" where
  "is_destructive cmd force_delete =
     (case cmd of
        [] \<Rightarrow> None
      | primary # flags \<Rightarrow>
          if primary = ''delete'' \<and> ''permanent'' \<in> set flags \<and> \<not> force_delete then
            Some ''delete-permanent''
          else if primary = ''delete'' \<and> \<not> force_delete then Some ''delete''
          else if primary = ''plugin:uninstall'' \<and> \<not> force_delete then Some ''plugin-uninstall''
          else if primary = ''publish:remove'' \<and> \<not> force_delete then Some ''publish-remove''
          else if primary = ''workspace:delete'' \<and> \<not> force_delete then Some ''workspace-delete''
          else if endswith primary '':delete'' \<and> primary \<noteq> ''task:delete'' \<and> \<not> force_delete then
            Some (''command-'' @ primary)
          else None)"

definition is_json_text :: "string \<Rightarrow> bool" where
  "is_json_text text = (text \<noteq> '''' \<and> (hd text = CHR ''{'' \<or> hd text = CHR ''[''))"

definition safe_parse_json :: "host \<Rightarrow> string \<Rightarrow> json" where
  "safe_parse_json h text =
     (if \<not> is_json_text text then JNull
      else (case json_decode h text of Some v \<Rightarrow> v | None \<Rightarrow> JNull))"

definition command_needs_vault :: "string list \<Rightarrow> bool" where
  "command_needs_vault cmd =
     (cmd \<noteq> [] \<and>
      hd cmd \<notin> {''help'', ''version'', ''reload'', ''restart'', ''vault'', ''vaults'', ''vault:open''})"

definition has_vault_token :: "string list \<Rightarrow> bool" where
  \<comment> \<open>\<open>any(part.startswith("vault=") for part in command_list)\<close>\<close>
  "has_vault_token cmd = list_ex (\<lambda>part. startswith part ''vault='') cmd"

definition refusal :: "string \<Rightarrow> string" where
  "refusal reason = ''Refusing destructive operation ('' @ reason @ '') without --force-delete.''"

definition failure :: "host \<Rightarrow> string list \<Rightarrow> string \<Rightarrow> string \<Rightarrow> string \<Rightarrow> envelope" where
  \<comment> \<open>the envelope of the three early returns\<close>
  "failure h cmd msg bin v =
     \<lparr>e_ok = False, e_command = cmd, e_exit_code = 1, e_stdout = '''', e_stderr = msg, e_parsed = JNull,
      e_raw = '''', e_binary = bin, e_vault = v, e_ts = utc_now h 0, e_output_stderr_only = None\<rparr>"

text \<open>
  \<open>run_obsidian\<close> returns the arguments it gave to \<open>subprocess.run\<close>, if it called it,
  and the envelope, or the error that \<open>subprocess.run\<close> raised. \<open>invoke\<close> is the end of
  its body, from the call of \<open>subprocess.run\<close> on.
\<close>

definition invoke ::
  "host \<Rightarrow> string \<Rightarrow> string list \<Rightarrow> string \<Rightarrow> bool
     \<Rightarrow> string list option \<times> (py_error + envelope)" where
  "invoke h resolved_binary command_list v parse_output =
     (case subprocess_run h (resolved_binary # command_list) of
        None \<Rightarrow> (Some (resolved_binary # command_list), Inl OSError)
      | Some cp \<Rightarrow>
          (let p = (if parse_output then safe_parse_json h (out_text cp) else JNull)
           in (Some (resolved_binary # command_list),
               Inr \<lparr>e_ok = (returncode cp = 0), e_command = command_list,
                    e_exit_code = returncode cp, e_stdout = out_text cp, e_stderr = err_text cp,
                    e_parsed = to_iso_jsonable p, e_raw = py_strip (out_text cp),
                    e_binary = resolved_binary, e_vault = v, e_ts = utc_now h 0,
                    e_output_stderr_only =
                      (if parse_output \<and> p = JNull \<and> py_strip (out_text cp) = ''''
                       then Some (py_strip (err_text cp) \<noteq> '''') else None)\<rparr>)))"

definition resolve_binary :: "host \<Rightarrow> string \<Rightarrow> string option" where
  \<comment> \<open>\<open>shutil.which(binary_path) or (binary_path if Path(binary_path).exists() else None)\<close>\<close>
  "resolve_binary h binary_path =
     (case which h binary_path of
        Some p \<Rightarrow> if p \<noteq> '''' then Some p
                  else if path_exists h binary_path then Some binary_path else None
      | None \<Rightarrow> if path_exists h binary_path then Some binary_path else None)"

definition run_obsidian ::
  "host \<Rightarrow> string list \<Rightarrow> string \<Rightarrow> string \<Rightarrow> bool \<Rightarrow> bool
     \<Rightarrow> string list option \<times> (py_error + envelope)" where
  "run_obsidian h cmd vault_arg binary_arg force_delete parse_output =
     (if cmd = [] then (None, Inr (failure h [] ''No command provided.'' binary_arg vault_arg))
      else
        let binary_path = load_binary h binary_arg
        in case resolve_binary h binary_path of
             None \<Rightarrow>
               (None, Inr (failure h cmd (''Obsidian CLI not found: '' @ binary_path) binary_path vault_arg))
           | Some resolved_binary \<Rightarrow>
               if resolved_binary = '''' then
                 (None, Inr (failure h cmd (''Obsidian CLI not found: '' @ binary_path) binary_path vault_arg))
               else
                 let command_list =
                       (if command_needs_vault cmd \<and> vault_arg \<noteq> '''' \<and> \<not> has_vault_token cmd
                        then (''vault='' @ vault_arg) # cmd else cmd);
                     v = (if command_needs_vault cmd \<and> vault_arg = '''' \<and> has_vault_token cmd
                          then '''' else vault_arg)
                 in (case is_destructive command_list force_delete of
                       Some reason \<Rightarrow>
                         if reason \<noteq> '''' then
                           (None, Inr (failure h command_list (refusal reason) resolved_binary v))
                         else invoke h resolved_binary command_list v parse_output
                     | None \<Rightarrow> invoke h resolved_binary command_list v parse_output))"

section \<open>vault\_registry.py\<close>

subsection \<open>Working-directory normalization\<close>

definition dotdot_message :: string where
  "dotdot_message = ''workdir must not contain '' @ [CHR 0x27] @ ''..'' @ [CHR 0x27]"

definition normalize_workdir :: "string \<Rightarrow> py_error + string" where
  "normalize_workdir raw =
     (let value = py_strip raw in
      if value = '''' \<or> value = ''.'' \<or> value = ''./'' then Inr ''''
      else
        let value' = strip_slash (replace_backslash value);
            parts = filter (\<lambda>p. p \<noteq> '''' \<and> p \<noteq> ''.'') (split_on CHR ''/'' value')
        in if parts = [] then Inr ''''
           else if ''..'' \<in> set parts then Inl (ValueError dotdot_message)
           else Inr (join_with ''/'' parts))"

text \<open>
  The path segments of an input: its pieces between separators of either style, once the
  surrounding white space is trimmed.
\<close>

definition segments :: "string \<Rightarrow> string list" where
  "segments raw = split_on CHR ''/'' (replace_backslash (py_strip raw))"

definition resolve_workdir_abs :: "string \<Rightarrow> string \<Rightarrow> string" where
  "resolve_workdir_abs vault_root workdir =
     (if workdir = '''' then vault_root else path_join vault_root workdir)"

subsection \<open>The registry document\<close>

text \<open>
  The registry is the \<open>dict\<close> that \<open>load_registry\<close> returns, with whatever other keys the
  file holds. A command works on it and gives it to \<open>save_registry\<close>.
\<close>

type_synonym registry = "(string \<times> json) list"

definition default_registry :: registry where
  "default_registry = [(''schema_version'', JInt 1), (''vaults'', JObj []), (''active'', JStr '''')]"

definition load_registry :: "host \<Rightarrow> string \<Rightarrow> registry" where
  "load_registry h path =
     (if \<not> path_exists h path then default_registry
      else
        (case read_text h path of
           None \<Rightarrow> default_registry
         | Some text \<Rightarrow>
             (case json_decode h text of
                None \<Rightarrow> default_registry
              | Some (JObj d) \<Rightarrow>
                  (let d1 = setdefault ''schema_version'' (JInt 1) d;
                       d2 = setdefault ''vaults'' (JObj []) d1;
                       d3 = setdefault ''active'' (JStr '''') d2;
                       d4 = (if \<not> is_dict (dict_get d3 ''vaults'')
                             then AList.update ''vaults'' (JObj []) d3 else d3);
                       d5 = (if \<not> is_str (dict_get d4 ''active'')
                             then AList.update ''active'' (JStr '''') d4 else d4)
                   in d5)
              | Some _ \<Rightarrow> default_registry)))"

definition vaults_of :: "registry \<Rightarrow> (string \<times> json) list" where
  \<comment> \<open>\<open>registry.get("vaults", {})\<close>, a \<open>dict\<close> in what \<open>load_registry\<close> returns\<close>
  "vaults_of registry = (case map_of registry ''vaults'' of Some (JObj d) \<Rightarrow> d | _ \<Rightarrow> [])"

definition is_vault_root :: "host \<Rightarrow> string \<Rightarrow> bool" where
  "is_vault_root h path =
     (path_exists h path \<and> path_is_dir h path \<and> path_exists h (path_join path ''.obsidian''))"

subsection \<open>Discovery\<close>

definition candidate_config_dirs :: "host \<Rightarrow> bool \<Rightarrow> py_error + string list" where
  \<comment> \<open>\<open>darwin\<close> is \<open>sys.platform.startswith("darwin")\<close>\<close>
  "candidate_config_dirs h darwin =
     (if darwin then
        (case expanduser h ''~/Library/Application Support/Obsidian'' of
           Inl e \<Rightarrow> Inl e
         | Inr d \<Rightarrow> Inr [d])
      else
        (case expanduser h ''~/.config/obsidian'' of
           Inl e \<Rightarrow> Inl e
         | Inr d1 \<Rightarrow>
             (case expanduser h ''~/.config/Obsidian'' of
                Inl e \<Rightarrow> Inl e
              | Inr d2 \<Rightarrow> Inr [d1, d2])))"

definition candidate_config_files :: "host \<Rightarrow> bool \<Rightarrow> string \<Rightarrow> py_error + string list" where
  "candidate_config_files h darwin explicit =
     (if explicit \<noteq> '''' then
        (case expanduser h explicit of Inl e \<Rightarrow> Inl e | Inr f \<Rightarrow> Inr [f])
      else
        (case candidate_config_dirs h darwin of
           Inl e \<Rightarrow> Inl e
         | Inr dirs \<Rightarrow>
             Inr (concat (map (\<lambda>base. [path_join base ''vaults.json'', path_join base ''obsidian.json'']) dirs))))"

text \<open>
  \<open>extract_vault_entries\<close> is a generator. Its model lists what it yields, in order; an
  \<open>Inl\<close> item is the exception it raises at that point, which ends the iteration.
  \<open>entry_of\<close> is the loop body its three loops share.
\<close>

definition entry_of :: "json \<Rightarrow> (py_error + json \<times> json) option" where
  "entry_of item =
     (case item of
        JObj d \<Rightarrow>
          (let path = dict_get d ''path'';
               name = py_or (dict_get d ''name'') (dict_get d ''label'')
           in if truthy path then
                (if truthy name then Some (Inr (name, path))
                 else (case path of
                         JStr p \<Rightarrow> Some (Inr (JStr (path_name p), path))
                       | _ \<Rightarrow> Some (Inl TypeError)))
              else None)
      | _ \<Rightarrow> None)"

definition has_path_key :: "json \<Rightarrow> bool" where
  \<comment> \<open>\<open>isinstance(value, dict) and "path" in value\<close>\<close>
  "has_path_key v = (case v of JObj d \<Rightarrow> has_key d ''path'' | _ \<Rightarrow> False)"

definition extract_vault_entries :: "json \<Rightarrow> (py_error + json \<times> json) list" where
  "extract_vault_entries data =
     (case data of
        JObj d \<Rightarrow>
          (let vaults0 = dict_get d ''vaults'';
               vals = map snd d;
               vaults =
                 (if vaults0 = JNull \<and> vals \<noteq> [] \<and> list_all has_path_key vals then data else vaults0)
           in (case vaults of
                 JObj vs \<Rightarrow> List.map_filter entry_of (map snd vs)
               | JArr items \<Rightarrow> List.map_filter entry_of items
               | _ \<Rightarrow> []))
      | JArr items \<Rightarrow> List.map_filter entry_of items
      | _ \<Rightarrow> [])"

record 'n discovered =
  entry_name :: 'n
  entry_path :: string
  entry_source :: string

text \<open>
  The inner loop of \<open>discover_vaults\<close> over the entries of one file, and its outer loop
  over the candidate files, on the state \<open>(results, seen_paths)\<close>.
\<close>

fun add_found ::
  "host \<Rightarrow> string \<Rightarrow> (py_error + json \<times> json) list \<Rightarrow> json discovered list \<times> string set
     \<Rightarrow> py_error + json discovered list \<times> string set" where
  "add_found h src [] st = Inr st"
| "add_found h src (Inl e # items) st = Inl e"
| "add_found h src (Inr (name, vault_path) # items) (results, seen_paths) =
     (case vault_path of
        JStr p \<Rightarrow>
          (case expanduser h p of
             Inl e \<Rightarrow> Inl e
           | Inr resolved \<Rightarrow>
               if resolved \<in> seen_paths then add_found h src items (results, seen_paths)
               else add_found h src items
                      (results @ [\<lparr>entry_name = name, entry_path = resolved, entry_source = src\<rparr>],
                       insert resolved seen_paths))
      | _ \<Rightarrow> Inl TypeError)"

fun scan_files ::
  "host \<Rightarrow> string list \<Rightarrow> json discovered list \<times> string set
     \<Rightarrow> py_error + json discovered list \<times> string set" where
  "scan_files h [] st = Inr st"
| "scan_files h (path # paths) st =
     (if \<not> path_exists h path then scan_files h paths st
      else
        (case read_text h path of
           None \<Rightarrow> scan_files h paths st
         | Some text \<Rightarrow>
             (case json_decode h text of
                None \<Rightarrow> scan_files h paths st
              | Some data \<Rightarrow>
                  (case add_found h path (extract_vault_entries data) st of
                     Inl e \<Rightarrow> Inl e
                   | Inr st' \<Rightarrow> scan_files h paths st'))))"

definition discover_in :: "host \<Rightarrow> string list \<Rightarrow> py_error + json discovered list" where
  \<comment> \<open>the body of \<open>discover_vaults\<close>, given the candidate files\<close>
  "discover_in h files =
     (case scan_files h files ([], {}) of Inl e \<Rightarrow> Inl e | Inr (results, seen_paths) \<Rightarrow> Inr results)"

definition discover_vaults :: "host \<Rightarrow> bool \<Rightarrow> string \<Rightarrow> py_error + json discovered list" where
  "discover_vaults h darwin config_path =
     (case candidate_config_files h darwin config_path of
        Inl e \<Rightarrow> Inl e
      | Inr files \<Rightarrow> discover_in h files)"

subsection \<open>The merge of discovered entries\<close>

text \<open>
  The loop of \<open>cmd_discover\<close> under \<open>args.merge\<close>, on entries whose names are strings,
  as the annotation \<open>List[Dict[str, str]]\<close> of \<open>discover_vaults\<close> declares them. Its state
  is the \<open>vaults\<close> dictionary, the number of clock readings so far and the lines written
  to standard error.
\<close>

record merge_state =
  m_vaults :: "(string \<times> json) list"
  m_reads :: nat
  m_stderr :: "string list"

definition existing_workdir :: "host \<Rightarrow> (string \<times> json) list \<Rightarrow> string \<Rightarrow> string" where
  \<comment> \<open>the value of \<open>existing_workdir\<close> when the entry is written\<close>
  "existing_workdir h vaults name =
     (if has_key vaults name then
        (case dict_get vaults name of
           JObj d \<Rightarrow> py_str h (py_or (dict_get_default d ''workdir'' (JStr '''')) (JStr ''''))
         | _ \<Rightarrow> '''')
      else '''')"

definition merge_entry :: "host \<Rightarrow> bool \<Rightarrow> string discovered \<Rightarrow> merge_state \<Rightarrow> merge_state" where
  "merge_entry h force entry st =
     (let name = entry_name entry;
          path = entry_path entry;
          vaults = m_vaults st
      in if has_key vaults name \<and> \<not> force then
           (let existing = dict_get vaults name;
                existing_path = (case existing of JObj d \<Rightarrow> dict_get d ''path'' | _ \<Rightarrow> JNull)
            in if existing_path \<noteq> JStr path
               then st\<lparr>m_stderr := m_stderr st @ [''Skip '' @ name @ ''; already registered'']\<rparr>
               else st)
         else
           st\<lparr>m_vaults :=
                AList.update name
                  (JObj [(''path'', JStr path),
                         (''workdir'', JStr (existing_workdir h vaults name)),
                         (''source'', JStr (entry_source entry)),
                         (''updated_at'', JStr (utc_now h (m_reads st)))])
                  vaults,
              m_reads := Suc (m_reads st)\<rparr>)"

fun merge_found :: "host \<Rightarrow> bool \<Rightarrow> string discovered list \<Rightarrow> merge_state \<Rightarrow> merge_state" where
  "merge_found h force [] st = st"
| "merge_found h force (entry # found) st = merge_found h force found (merge_entry h force entry st)"

subsection \<open>The commands\<close>

text \<open>
  A command is given the path of the registry file, loads the registry, and returns its
  exit status, the document it gave to \<open>save_registry\<close> if it saved one, and its lines on
  standard error; its lines on standard output are left out. \<open>Inl\<close> is an exception that
  leaves the command.
\<close>

record outcome =
  returned :: int
  saved :: "registry option"
  to_stderr :: "string list"

definition rejected :: "string \<Rightarrow> outcome" where
  "rejected msg = \<lparr>returned = 1, saved = None, to_stderr = [msg]\<rparr>"

definition accepted :: "registry \<Rightarrow> outcome" where
  "accepted registry = \<lparr>returned = 0, saved = Some registry, to_stderr = []\<rparr>"

record add_args =
  add_name :: string
  add_path :: string
  add_workdir :: string
  add_source :: string
  add_force :: bool
  add_allow_missing :: bool
  add_allow_missing_workdir :: bool
  add_set_active :: bool

definition cmd_add :: "host \<Rightarrow> add_args \<Rightarrow> string \<Rightarrow> py_error + outcome" where
  "cmd_add h args reg_path =
     (let registry = load_registry h reg_path;
          vaults = vaults_of registry
      in case expanduser h (add_path args) of
           Inl e \<Rightarrow> Inl e
         | Inr expanded \<Rightarrow>
             (let vault_path = resolve_path h expanded
              in if \<not> add_allow_missing args \<and> \<not> is_vault_root h vault_path then
                   Inr (rejected (''Not a vault root (missing .obsidian): '' @ vault_path))
                 else
                   (let name = (if add_name args \<noteq> '''' then add_name args else path_name vault_path)
                    in if has_key vaults name \<and> \<not> add_force args then
                         Inr (rejected (''Vault name already exists: '' @ name))
                       else
                         (case normalize_workdir (add_workdir args) of
                            Inl (ValueError msg) \<Rightarrow> Inr (rejected (''Invalid --workdir: '' @ msg))
                          | Inl e \<Rightarrow> Inl e
                          | Inr workdir \<Rightarrow>
                              (let workdir_abs = resolve_workdir_abs vault_path workdir
                               in if workdir \<noteq> '''' \<and> \<not> path_exists h workdir_abs
                                       \<and> \<not> add_allow_missing_workdir args then
                                    Inr (rejected (''Working dir does not exist: '' @ workdir_abs))
                                  else if workdir \<noteq> '''' \<and> path_exists h workdir_abs
                                       \<and> \<not> path_is_dir h workdir_abs then
                                    Inr (rejected (''Working dir is not a directory: '' @ workdir_abs))
                                  else
                                    (let vaults' =
                                           AList.update name
                                             (JObj [(''path'', JStr vault_path),
                                                    (''workdir'', JStr workdir),
                                                    (''source'', JStr (if add_source args \<noteq> ''''
                                                                      then add_source args else ''manual'')),
                                                    (''updated_at'', JStr (utc_now h 0))])
                                             vaults;
                                         registry' = AList.update ''vaults'' (JObj vaults') registry;
                                         registry'' = (if add_set_active args
                                                       then AList.update ''active'' (JStr name) registry'
                                                       else registry')
                                     in Inr (accepted registry'')))))))"

definition cmd_remove :: "host \<Rightarrow> string \<Rightarrow> string \<Rightarrow> py_error + outcome" where
  "cmd_remove h name reg_path =
     (let registry = load_registry h reg_path;
          vaults = vaults_of registry
      in if \<not> has_key vaults name then Inr (rejected (''Unknown vault name: '' @ name))
         else
           (let vaults' = AList.delete name vaults;
                registry' = AList.update ''vaults'' (JObj vaults') registry;
                registry'' = (if dict_get registry' ''active'' = JStr name
                              then AList.update ''active'' (JStr '''') registry'
                              else registry')
            in Inr (accepted registry'')))"

definition cmd_set_active :: "host \<Rightarrow> string \<Rightarrow> string \<Rightarrow> py_error + outcome" where
  "cmd_set_active h name reg_path =
     (let registry = load_registry h reg_path;
          vaults = vaults_of registry
      in if \<not> has_key vaults name then Inr (rejected (''Unknown vault name: '' @ name))
         else Inr (accepted (AList.update ''active'' (JStr name) registry)))"

record workdir_args =
  wd_name :: string
  wd_workdir :: string
  wd_allow_missing_workdir :: bool

definition cmd_set_workdir :: "host \<Rightarrow> workdir_args \<Rightarrow> string \<Rightarrow> py_error + outcome" where
  "cmd_set_workdir h args reg_path =
     (let registry = load_registry h reg_path;
          vaults = vaults_of registry;
          name_value = (if wd_name args \<noteq> '''' then JStr (wd_name args)
                        else dict_get_default registry ''active'' (JStr ''''))
      in case name_value of
           JStr name \<Rightarrow>
             if name = '''' then Inr (rejected ''No vault specified and no active vault set.'')
             else if \<not> has_key vaults name then Inr (rejected (''Unknown vault name: '' @ name))
             else
               (let info = (case dict_get_default vaults name (JObj []) of JObj d \<Rightarrow> d | _ \<Rightarrow> [])
                in case dict_get_default info ''path'' (JStr '''') of
                     JStr vault_path_str \<Rightarrow>
                       if vault_path_str = '''' then Inr (rejected (''Vault path missing for '' @ name))
                       else
                         (case normalize_workdir (wd_workdir args) of
                            Inl (ValueError msg) \<Rightarrow> Inr (rejected (''Invalid --workdir: '' @ msg))
                          | Inl e \<Rightarrow> Inl e
                          | Inr workdir \<Rightarrow>
                              (case expanduser h vault_path_str of
                                 Inl e \<Rightarrow> Inl e
                               | Inr expanded \<Rightarrow>
                                   (let vault_path = resolve_path h expanded;
                                        workdir_abs = resolve_workdir_abs vault_path workdir
                                    in if workdir \<noteq> '''' \<and> \<not> path_exists h workdir_abs
                                            \<and> \<not> wd_allow_missing_workdir args then
                                         Inr (rejected (''Working dir does not exist: '' @ workdir_abs))
                                       else if path_exists h workdir_abs \<and> \<not> path_is_dir h workdir_abs then
                                         Inr (rejected (''Working dir is not a directory: '' @ workdir_abs))
                                       else
                                         (let info' = AList.update ''updated_at'' (JStr (utc_now h 0))
                                                        (AList.update ''workdir'' (JStr workdir) info);
                                              vaults' = AList.update name (JObj info') vaults
                                          in Inr (accepted (AList.update ''vaults'' (JObj vaults') registry))))))
                   | _ \<Rightarrow> Inr (rejected (''Vault path missing for '' @ name)))
         | _ \<Rightarrow> Inr (rejected ''No vault specified and no active vault set.''))"

definition cmd_discover_merge ::
  "host \<Rightarrow> bool \<Rightarrow> string discovered list \<Rightarrow> string \<Rightarrow> py_error + outcome" where
  \<comment> \<open>\<open>cmd_discover\<close> under \<open>args.merge\<close>, from the value \<open>found\<close> of \<open>discover_vaults\<close> on\<close>
  "cmd_discover_merge h force found reg_path =
     (let registry = load_registry h reg_path;
          st = merge_found h force found \<lparr>m_vaults = vaults_of registry, m_reads = 0, m_stderr = []\<rparr>
      in Inr \<lparr>returned = 0,
              saved = Some (AList.update ''vaults'' (JObj (m_vaults st)) registry),
              to_stderr = m_stderr st\<rparr>)"

subsection \<open>The invariant of the registry\<close>

definition active_ok :: "registry \<Rightarrow> bool" where
  \<comment> \<open>\<open>active\<close> is a string, and when it is not empty it is a key of \<open>vaults\<close>\<close>
  "active_ok registry =
     (case map_of registry ''active'' of
        Some (JStr a) \<Rightarrow> a = '''' \<or> has_key (vaults_of registry) a
      | _ \<Rightarrow> False)"

subsection \<open>The registry the commands work on\<close>

text \<open>
  \<open>well_formed\<close> is what the rest of a command relies on in the loaded registry: the
  three keys, a \<open>dict\<close> under \<open>vaults\<close> and a \<open>str\<close> under \<open>active\<close>. \<open>run_command\<close> is the
  dispatch of \<open>main\<close> to the command of the subparser, for the commands that save.
\<close>

definition well_formed :: "registry \<Rightarrow> bool" where
  "well_formed r \<longleftrightarrow> has_key r ''schema_version'' \<and> has_key r ''vaults'' \<and> has_key r ''active''
      \<and> is_dict (dict_get r ''vaults'') \<and> is_str (dict_get r ''active'')"

datatype operation =
    Add add_args
  | Remove string
  | SetActive string
  | SetWorkdir workdir_args
  | DiscoverMerge bool "string discovered list"

fun run_command :: "host \<Rightarrow> operation \<Rightarrow> string \<Rightarrow> py_error + outcome" where
  "run_command h (Add args) reg_path = cmd_add h args reg_path"
| "run_command h (Remove name) reg_path = cmd_remove h name reg_path"
| "run_command h (SetActive name) reg_path = cmd_set_active h name reg_path"
| "run_command h (SetWorkdir args) reg_path = cmd_set_workdir h args reg_path"
| "run_command h (DiscoverMerge force found) reg_path = cmd_discover_merge h force found reg_path"

subsection \<open>What discovery is compared with\<close>

text \<open>
  The entries that the candidate files yield, file after file, each with its expanded
  path and the file it stands in; and the selection that keeps, of the entries with one
  path, the first.
\<close>

definition item_entries ::
  "host \<Rightarrow> string \<Rightarrow> (py_error + json \<times> json) list \<Rightarrow> json discovered list" where
  "item_entries h f items =
     List.map_filter
       (\<lambda>item. case item of
          Inr (name, JStr p) \<Rightarrow>
            (case expanduser h p of
               Inr resolved \<Rightarrow>
                 Some \<lparr>entry_name = name, entry_path = resolved, entry_source = f\<rparr>
             | Inl e \<Rightarrow> None)
        | _ \<Rightarrow> None)
       items"

definition file_entries :: "host \<Rightarrow> string \<Rightarrow> json discovered list" where
  "file_entries h f =
     (if \<not> path_exists h f then []
      else
        (case read_text h f of
           None \<Rightarrow> []
         | Some body \<Rightarrow>
             (case json_decode h body of
                None \<Rightarrow> []
              | Some data \<Rightarrow> item_entries h f (extract_vault_entries data))))"

definition yielded :: "host \<Rightarrow> string list \<Rightarrow> json discovered list" where
  "yielded h files = concat (map (file_entries h) files)"

fun firsts :: "('a \<Rightarrow> 'k) \<Rightarrow> 'a list \<Rightarrow> 'a list" where
  "firsts key [] = []"
| "firsts key (x # xs) = x # firsts key (filter (\<lambda>y. key y \<noteq> key x) xs)"

subsection \<open>A host for the examples\<close>

text \<open>
  \<open>resolve_nolinks\<close> is \<open>Path.resolve\<close> where no directory is a symbolic link and the
  working directory is the root: \<open>..\<close> cancels the part before it. \<open>example_host\<close> is a
  host with the given text files, that resolver, the decoder \<open>json_loads\<close>, an
  executable \<open>obsidian\<close> found at \<open>/usr/bin/obsidian\<close>, and a subprocess that ends as
  \<open>cp\<close>; its \<open>str_of\<close> is not Python's, and no example reads it.
\<close>

fun collapse_dotdot :: "string list \<Rightarrow> string list \<Rightarrow> string list" where
  "collapse_dotdot acc [] = rev acc"
| "collapse_dotdot acc (p # ps) =
     (if p = ''..'' then collapse_dotdot (tl acc) ps else collapse_dotdot (p # acc) ps)"

definition resolve_nolinks :: "string \<Rightarrow> string" where
  "resolve_nolinks s = ''/'' @ join_with ''/'' (collapse_dotdot [] (posix_parts s))"

definition example_host :: "(string \<times> string) list \<Rightarrow> completed \<Rightarrow> host" where
  "example_host files cp =
     \<lparr>home_of = (\<lambda>_. None),
      resolve_path = resolve_nolinks,
      path_exists = (\<lambda>p. map_of files p \<noteq> None \<or> p = ''/usr/bin/obsidian''),
      path_is_dir = (\<lambda>_. False),
      read_text = map_of files,
      json_decode = json_loads,
      str_of = (\<lambda>_. ''?''),
      utc_now = (\<lambda>_. ''2024-01-01T00:00:00Z''),
      which = (\<lambda>b. if b = ''obsidian'' then Some ''/usr/bin/obsidian'' else None),
      environ_cli_bin = '''',
      subprocess_run = (\<lambda>_. Some cp)\<rparr>"

definition idle :: completed where
  "idle = \<lparr>returncode = 0, out_text = '''', err_text = ''''\<rparr>"

definition example_registry_text :: string where
  \<open>example_registry_text =
     ''{"schema_version": 1, "vaults": {"work": {"path": "/v/work"}, "home": {"path": "/v/home"}}, "active": "work"}''\<close>

definition example_registry_host :: host where
  "example_registry_host = example_host [(''/data/vaults.json'', example_registry_text)] idle"







section \<open>Properties of the string functions\<close>

lemma split_on_nonempty: "split_on sep s \<noteq> []"
  by (induction s) auto

lemma split_on_prefix:
  "sep \<notin> set ws \<Longrightarrow> split_on sep (ws @ a) = (ws @ hd (split_on sep a)) # tl (split_on sep a)"
  by (induction ws) (auto simp: split_on_nonempty)

lemma split_on_at_sep:
  "split_on sep (a @ sep # b) = split_on sep a @ split_on sep b"
  by (induction a) (auto simp: split_on_nonempty)

lemma split_on_suffix:
  "sep \<notin> set ws \<Longrightarrow>
     split_on sep (a @ ws) = butlast (split_on sep a) @ [last (split_on sep a) @ ws]"
proof (induction a)
  case Nil
  then show ?case using split_on_prefix [of sep ws "[]"] by simp
next
  case (Cons c a)
  then show ?case
    by (cases "split_on sep a") (auto simp: split_on_nonempty)
qed

lemma seg_lstrip:
  assumes "w \<in> set (split_on sep s)" and "\<And>c. c \<in> set w \<Longrightarrow> \<not> P c" and "\<not> P sep"
  shows "w \<in> set (split_on sep (lstrip_by P s))"
proof -
  let ?ws = "takeWhile P s" and ?r = "split_on sep (dropWhile P s)"
  have "sep \<notin> set ?ws" using assms(3) by (auto dest: set_takeWhileD)
  then have eq: "split_on sep s = (?ws @ hd ?r) # tl ?r"
    using split_on_prefix [of sep ?ws "dropWhile P s"] by simp
  have ne: "?r \<noteq> []" by (rule split_on_nonempty)
  from assms(1) eq consider "w = ?ws @ hd ?r" | "w \<in> set (tl ?r)" by auto
  then have "w \<in> set ?r"
  proof cases
    case 1
    have "?ws = []"
    proof (rule ccontr)
      assume "?ws \<noteq> []"
      then have "hd ?ws \<in> set ?ws" by simp
      then have "P (hd ?ws)" by (auto dest: set_takeWhileD)
      moreover have "hd ?ws \<in> set w" using 1 \<open>?ws \<noteq> []\<close> by (cases ?ws) auto
      ultimately show False using assms(2) by blast
    qed
    with 1 ne show ?thesis by simp
  next
    case 2
    then show ?thesis using ne by (auto dest: list.set_sel(2))
  qed
  then show ?thesis by (simp add: lstrip_by_def)
qed

lemma rstrip_by_decomp:
  obtains ws where "s = rstrip_by P s @ ws" and "\<And>c. c \<in> set ws \<Longrightarrow> P c"
proof
  show "s = rstrip_by P s @ rev (takeWhile P (rev s))"
    unfolding rstrip_by_def by (metis rev_append rev_rev_ident takeWhile_dropWhile_id)
  show "\<And>c. c \<in> set (rev (takeWhile P (rev s))) \<Longrightarrow> P c"
    by (auto dest: set_takeWhileD)
qed

lemma seg_rstrip:
  assumes "w \<in> set (split_on sep s)" and "\<And>c. c \<in> set w \<Longrightarrow> \<not> P c" and "\<not> P sep"
  shows "w \<in> set (split_on sep (rstrip_by P s))"
proof -
  obtain ws where s: "s = rstrip_by P s @ ws" and ws: "\<And>c. c \<in> set ws \<Longrightarrow> P c"
    by (rule rstrip_by_decomp [of s P]) blast
  define r where "r = split_on sep (rstrip_by P s)"
  have "sep \<notin> set ws" using assms(3) ws by blast
  then have "split_on sep (rstrip_by P s @ ws) = butlast r @ [last r @ ws]"
    unfolding r_def by (rule split_on_suffix)
  with s have eq: "split_on sep s = butlast r @ [last r @ ws]" by simp
  have ne: "r \<noteq> []" unfolding r_def by (rule split_on_nonempty)
  from assms(1) eq consider "w = last r @ ws" | "w \<in> set (butlast r)" by auto
  then have "w \<in> set r"
  proof cases
    case 1
    have "ws = []"
    proof (rule ccontr)
      assume n: "ws \<noteq> []"
      then have "last ws \<in> set ws" by (rule last_in_set)
      then have "P (last ws)" by (rule ws)
      moreover have "last ws \<in> set w" using 1 n by simp
      ultimately show False using assms(2) by blast
    qed
    with 1 ne show ?thesis by simp
  next
    case 2
    then show ?thesis by (auto dest: in_set_butlastD)
  qed
  then show ?thesis by (simp add: r_def)
qed

lemma seg_strip:
  assumes "w \<in> set (split_on sep s)" and "\<And>c. c \<in> set w \<Longrightarrow> \<not> P c" and "\<not> P sep"
  shows "w \<in> set (split_on sep (strip_by P s))"
  unfolding strip_by_def using assms by (intro seg_rstrip seg_lstrip)


lemma split_on_replace:
  assumes "b \<noteq> sep"
  shows "(b \<notin> set (hd (split_on sep s)) \<longrightarrow>
            hd (split_on sep (map (\<lambda>c. if c = b then sep else c) s)) = hd (split_on sep s))
       \<and> (\<forall>w \<in> set (tl (split_on sep s)). b \<notin> set w \<longrightarrow>
            w \<in> set (tl (split_on sep (map (\<lambda>c. if c = b then sep else c) s))))"
proof (induction s)
  case Nil
  show ?case by simp
next
  case (Cons c s)
  let ?f = "\<lambda>c. if c = b then sep else c"
  have ne: "split_on sep s \<noteq> []" "split_on sep (map ?f s) \<noteq> []"
    by (rule split_on_nonempty)+
  have sub: "\<And>w. w \<in> set (split_on sep s) \<Longrightarrow> b \<notin> set w \<Longrightarrow>
               w \<in> set (split_on sep (map ?f s))"
  proof -
    fix w assume w: "w \<in> set (split_on sep s)" "b \<notin> set w"
    from w(1) ne(1) have "w = hd (split_on sep s) \<or> w \<in> set (tl (split_on sep s))"
      by (cases "split_on sep s") auto
    then show "w \<in> set (split_on sep (map ?f s))"
    proof
      assume "w = hd (split_on sep s)"
      with Cons w(2) have "w = hd (split_on sep (map ?f s))" by simp
      with ne(2) show ?thesis by simp
    next
      assume "w \<in> set (tl (split_on sep s))"
      with Cons w(2) have "w \<in> set (tl (split_on sep (map ?f s)))" by blast
      then show ?thesis by (rule list.set_sel(2) [OF ne(2)])
    qed
  qed
  show ?case
  proof (cases "c = sep")
    case True
    then show ?thesis using sub by auto
  next
    case False
    show ?thesis
    proof (cases "c = b")
      case True
      then show ?thesis using False sub assms by (auto dest: list.set_sel(2) [OF ne(1)])
    next
      case nb: False
      then show ?thesis using False Cons by auto
    qed
  qed
qed

lemma seg_replace:
  assumes "w \<in> set (split_on sep s)" and "b \<notin> set w" and "b \<noteq> sep"
  shows "w \<in> set (split_on sep (map (\<lambda>c. if c = b then sep else c) s))"
proof -
  let ?r = "split_on sep s" and ?r' = "split_on sep (map (\<lambda>c. if c = b then sep else c) s)"
  have ne: "?r \<noteq> []" "?r' \<noteq> []" by (rule split_on_nonempty)+
  from assms(1) ne(1) have "w = hd ?r \<or> w \<in> set (tl ?r)" by (cases ?r) auto
  then show ?thesis
  proof
    assume "w = hd ?r"
    with split_on_replace [OF assms(3), of s] assms(2) have "w = hd ?r'" by simp
    with ne(2) show ?thesis by simp
  next
    assume "w \<in> set (tl ?r)"
    with split_on_replace [OF assms(3), of s] assms(2) have "w \<in> set (tl ?r')" by blast
    then show ?thesis by (rule list.set_sel(2) [OF ne(2)])
  qed
qed

lemma split_on_all_sep:
  "(\<And>c. c \<in> set ws \<Longrightarrow> c = sep) \<Longrightarrow> filter (\<lambda>p. p \<noteq> []) (split_on sep ws) = []"
  by (induction ws) auto

lemma filter_split_lstrip:
  "filter (\<lambda>p. p \<noteq> []) (split_on sep (lstrip_by (\<lambda>c. c = sep) s))
     = filter (\<lambda>p. p \<noteq> []) (split_on sep s)"
  unfolding lstrip_by_def by (induction s) auto

lemma filter_split_rstrip:
  "filter (\<lambda>p. p \<noteq> []) (split_on sep (rstrip_by (\<lambda>c. c = sep) s))
     = filter (\<lambda>p. p \<noteq> []) (split_on sep s)"
proof -
  obtain ws where s: "s = rstrip_by (\<lambda>c. c = sep) s @ ws" and ws: "\<And>c. c \<in> set ws \<Longrightarrow> c = sep"
    by (rule rstrip_by_decomp [of s "\<lambda>c. c = sep"]) blast
  define a where "a = rstrip_by (\<lambda>c. c = sep) s"
  have "filter (\<lambda>p. p \<noteq> []) (split_on sep (a @ ws)) = filter (\<lambda>p. p \<noteq> []) (split_on sep a)"
  proof (cases ws)
    case Nil
    then show ?thesis by simp
  next
    case (Cons c cs)
    with ws have c: "c = sep" and cs: "\<And>d. d \<in> set cs \<Longrightarrow> d = sep" by auto
    have "split_on sep (a @ sep # cs) = split_on sep a @ split_on sep cs"
      by (rule split_on_at_sep)
    then show ?thesis using Cons c split_on_all_sep [of cs sep] cs by simp
  qed
  with s show ?thesis unfolding a_def by simp
qed

lemma filter_split_strip:
  "filter (\<lambda>p. p \<noteq> []) (split_on sep (strip_by (\<lambda>c. c = sep) s))
     = filter (\<lambda>p. p \<noteq> []) (split_on sep s)"
  unfolding strip_by_def by (simp add: filter_split_rstrip filter_split_lstrip)

lemma parts_strip_slash:
  "filter (\<lambda>p. p \<noteq> [] \<and> p \<noteq> ''.'') (split_on CHR ''/'' (strip_slash s))
     = filter (\<lambda>p. p \<noteq> [] \<and> p \<noteq> ''.'') (split_on CHR ''/'' s)"
proof -
  have "filter (\<lambda>p. p \<noteq> ''.'') (filter (\<lambda>p. p \<noteq> []) (split_on CHR ''/'' (strip_slash s)))
      = filter (\<lambda>p. p \<noteq> ''.'') (filter (\<lambda>p. p \<noteq> []) (split_on CHR ''/'' s))"
    unfolding strip_slash_def by (simp only: filter_split_strip)
  then show ?thesis by (simp add: conj_commute)
qed

section \<open>Working-directory normalization\<close>

lemma normalize_workdir_segments:
  "normalize_workdir raw =
     (if ''..'' \<in> set (segments raw) then Inl (ValueError dotdot_message)
      else Inr (join_with ''/'' (filter (\<lambda>p. p \<noteq> '''' \<and> p \<noteq> ''.'') (segments raw))))"
proof -
  define v where "v = py_strip raw"
  consider "v = ''''" | "v = ''.''" | "v = ''./''" | "v \<noteq> ''''" "v \<noteq> ''.''" "v \<noteq> ''./''"
    by blast
  then show ?thesis
  proof cases
    case 4
    then show ?thesis
      unfolding normalize_workdir_def segments_def v_def [symmetric] Let_def
      by (auto simp: parts_strip_slash filter_empty_conv)
  qed (simp_all add: normalize_workdir_def segments_def v_def [symmetric] replace_backslash_def backslash_def)
qed

lemma dotdot_segment_kept:
  assumes "''..'' \<in> set (split_on CHR ''/'' raw)"
  shows "''..'' \<in> set (segments raw)"
proof -
  have "''..'' \<in> set (split_on CHR ''/'' (py_strip raw))"
    unfolding py_strip_def
    by (rule seg_strip [OF assms]) (auto simp: is_space_def)
  then show ?thesis
    unfolding segments_def replace_backslash_def
    by (rule seg_replace) (simp_all add: backslash_def)
qed

text \<open>
  C7. \<open>normalize_workdir\<close> maps \<open>""\<close>, \<open>"."\<close> and \<open>"./"\<close> to the empty string, and it
  raises \<open>ValueError\<close> on every input that has \<open>..\<close> among its segments between
  slashes.
\<close>

theorem normalize_workdir_root_and_dotdot:
  "normalize_workdir '''' = Inr ''''
   \<and> normalize_workdir ''.'' = Inr ''''
   \<and> normalize_workdir ''./'' = Inr ''''
   \<and> (''..'' \<in> set (split_on CHR ''/'' raw)
        \<longrightarrow> normalize_workdir raw = Inl (ValueError dotdot_message))"
proof -
  have "normalize_workdir '''' = Inr ''''"
    by (simp add: normalize_workdir_def py_strip_def strip_by_def lstrip_by_def rstrip_by_def)
  moreover have "normalize_workdir ''.'' = Inr ''''"
    by (simp add: normalize_workdir_def py_strip_def strip_by_def lstrip_by_def rstrip_by_def
        is_space_def)
  moreover have "normalize_workdir ''./'' = Inr ''''"
    by (simp add: normalize_workdir_def py_strip_def strip_by_def lstrip_by_def rstrip_by_def
        is_space_def)
  moreover have "''..'' \<in> set (split_on CHR ''/'' raw)
      \<longrightarrow> normalize_workdir raw = Inl (ValueError dotdot_message)"
    using dotdot_segment_kept [of raw] by (simp add: normalize_workdir_segments)
  ultimately show ?thesis by blast
qed

theorem normalize_workdir_root_and_dotdot_witness:
  "''..'' \<in> set (split_on CHR ''/'' ''notes/../secret'')
   \<and> normalize_workdir ''notes/../secret'' = Inl (ValueError dotdot_message)"
  using normalize_workdir_root_and_dotdot [of "''notes/../secret''"] by simp

text \<open>
  C10. \<open>normalize_workdir\<close> rejects exactly the inputs that, trimmed of white space and
  cut at slashes and backslashes, have a segment \<open>..\<close>. Every other input is accepted,
  absolute or not, and gives its segments that are neither empty nor \<open>.\<close>, joined by
  slashes: \<open>/a\b/\<close> gives \<open>a/b\<close> and \<open>/notes\<close> gives \<open>notes\<close>.
\<close>

theorem normalize_workdir_rejects_only_dotdot:
  "normalize_workdir raw =
     (if ''..'' \<in> set (segments raw) then Inl (ValueError dotdot_message)
      else Inr (join_with ''/'' (filter (\<lambda>p. p \<noteq> '''' \<and> p \<noteq> ''.'') (segments raw))))
   \<and> (isl (normalize_workdir raw) \<longleftrightarrow> ''..'' \<in> set (segments raw))
   \<and> normalize_workdir (''/a'' @ [backslash] @ ''b/'') = Inr ''a/b''
   \<and> normalize_workdir ''/notes'' = Inr ''notes''"
proof -
  have ex1: "normalize_workdir (''/a'' @ [backslash] @ ''b/'') = Inr ''a/b''"
    by (simp add: normalize_workdir_segments segments_def py_strip_def strip_by_def lstrip_by_def
        rstrip_by_def is_space_def replace_backslash_def backslash_def)
  have ex2: "normalize_workdir ''/notes'' = Inr ''notes''"
    by (simp add: normalize_workdir_segments segments_def py_strip_def strip_by_def lstrip_by_def
        rstrip_by_def is_space_def replace_backslash_def backslash_def)
  show ?thesis
    using ex1 ex2 by (simp add: normalize_workdir_segments)
qed

theorem normalize_workdir_rejects_only_dotdot_witness:
  "normalize_workdir ''/vault/./daily//'' = Inr ''vault/daily''
   \<and> \<not> isl (normalize_workdir ''/vault/./daily//'')
   \<and> ''..'' \<notin> set (segments ''/vault/./daily//'')"
  using normalize_workdir_rejects_only_dotdot [of "''/vault/./daily//''"]
  by (simp add: segments_def py_strip_def strip_by_def lstrip_by_def rstrip_by_def is_space_def
      replace_backslash_def backslash_def)

section \<open>The command gate\<close>

lemmas gate_eval =
  run_obsidian_def invoke_def load_binary_def resolve_binary_def example_host_def
  default_cli_binary_def command_needs_vault_def has_vault_token_def is_destructive_def
  failure_def refusal_def safe_parse_json_def is_json_text_def startswith_def endswith_def
  py_strip_def strip_by_def lstrip_by_def rstrip_by_def is_space_def Let_def

lemmas json_eval =
  json_loads_def skip_ws_def json_ws_def backslash_def scan_number_def is_digit_def
  digits_value_def

lemma to_iso_jsonable_id: "to_iso_jsonable v = v"
  by (induction v) (auto simp: map_idI prod.map_ident intro!: map_idI)



lemma load_binary_decoder [simp]: "load_binary (h\<lparr>json_decode := d\<rparr>) b = load_binary h b"
  by (simp add: load_binary_def)

lemma resolve_binary_decoder [simp]: "resolve_binary (h\<lparr>json_decode := d\<rparr>) b = resolve_binary h b"
  by (simp add: resolve_binary_def)


lemma invoke_spawned: "fst (invoke h rb cl v po) = Some (rb # cl)"
  by (simp add: invoke_def Let_def split: option.splits)


text \<open>
  With no vault name, a \<open>delete\<close> that is not forced is refused before any subprocess
  runs, and \<open>force_delete\<close> lifts every refusal.
\<close>

lemma delete_without_vault_is_refused:
  assumes "resolve_binary h (load_binary h binary_arg) = Some rb" and "rb \<noteq> ''''"
      and "''permanent'' \<notin> set flags"
  shows "run_obsidian h (''delete'' # flags) '''' binary_arg False parse_output
           = (None, Inr (failure h (''delete'' # flags) (refusal ''delete'') rb ''''))"
  using assms by (simp add: run_obsidian_def Let_def is_destructive_def)

lemma force_delete_is_not_refused: "is_destructive cmd True = None"
  by (simp add: is_destructive_def split: list.splits)

text \<open>
  C1. The claim is that a \<open>delete\<close> without \<open>force_delete\<close> is refused whatever the vault
  name. The code classifies the token list after it has put \<open>vault=<name>\<close> in front,
  so that with a vault name the primary verb it looks at is that token: the \<open>delete\<close> is
  not refused, and the subprocess runs. (A vault name whose \<open>vault=<name>\<close> token ends in
  \<open>:delete\<close> is the one exception.)
\<close>

theorem delete_with_vault_is_not_refused:
  assumes "resolve_binary h (load_binary h binary_arg) = Some rb" and "rb \<noteq> ''''"
      and "vault_arg \<noteq> ''''" and "\<not> has_vault_token (''delete'' # flags)"
      and "\<not> endswith (''vault='' @ vault_arg) '':delete''"
  shows "run_obsidian h (''delete'' # flags) vault_arg binary_arg False parse_output
           = invoke h rb ((''vault='' @ vault_arg) # ''delete'' # flags) vault_arg parse_output
         \<and> fst (run_obsidian h (''delete'' # flags) vault_arg binary_arg False parse_output)
           = Some (rb # (''vault='' @ vault_arg) # ''delete'' # flags)"
proof -
  have nv: "command_needs_vault (''delete'' # flags)"
    by (simp add: command_needs_vault_def)
  have "is_destructive ((''vault='' @ vault_arg) # ''delete'' # flags) False = None"
    using assms(5) by (simp add: is_destructive_def)
  then have "run_obsidian h (''delete'' # flags) vault_arg binary_arg False parse_output
           = invoke h rb ((''vault='' @ vault_arg) # ''delete'' # flags) vault_arg parse_output"
    using assms nv by (simp add: run_obsidian_def Let_def)
  then show ?thesis by (simp add: invoke_spawned)
qed

theorem delete_with_vault_is_not_refused_witness:
  "run_obsidian (example_host [] \<lparr>returncode = 0, out_text = ''deleted'', err_text = ''''\<rparr>)
     [''delete'', ''file=a.md''] ''Notes'' '''' False True
   = (Some [''/usr/bin/obsidian'', ''vault=Notes'', ''delete'', ''file=a.md''],
      Inr \<lparr>e_ok = True, e_command = [''vault=Notes'', ''delete'', ''file=a.md''],
           e_exit_code = 0, e_stdout = ''deleted'', e_stderr = '''', e_parsed = JNull,
           e_raw = ''deleted'', e_binary = ''/usr/bin/obsidian'', e_vault = ''Notes'',
           e_ts = ''2024-01-01T00:00:00Z'', e_output_stderr_only = None\<rparr>)"
proof -
  let ?h = "example_host [] \<lparr>returncode = 0, out_text = ''deleted'', err_text = ''''\<rparr>"
  have 1: "resolve_binary ?h (load_binary ?h '''') = Some ''/usr/bin/obsidian''"
    by (simp add: gate_eval)
  have 2: "''/usr/bin/obsidian'' \<noteq> ''''" by simp
  have 3: "''Notes'' \<noteq> ''''" by simp
  have 4: "\<not> has_vault_token [''delete'', ''file=a.md'']" by (simp add: gate_eval)
  have 5: "\<not> endswith (''vault='' @ ''Notes'') '':delete''" by (simp add: gate_eval)
  from delete_with_vault_is_not_refused [OF 1 2 3 4 5, of True]
  show ?thesis by (simp add: gate_eval to_iso_jsonable_id)
qed




section \<open>The registry\<close>

lemma has_key_update [simp]: "has_key (AList.update k v d) k' \<longleftrightarrow> k' = k \<or> has_key d k'"
  by (simp add: has_key_def update_conv')

lemma has_key_delete [simp]: "has_key (AList.delete k d) k' \<longleftrightarrow> k' \<noteq> k \<and> has_key d k'"
  by (simp add: has_key_def delete_conv')

lemma dict_get_update [simp]:
  "dict_get (AList.update k v d) k' = (if k' = k then v else dict_get d k')"
  by (simp add: dict_get_def update_conv')

lemma has_key_setdefault [simp]: "has_key (setdefault k v d) k' \<longleftrightarrow> k' = k \<or> has_key d k'"
  by (auto simp: setdefault_def)

lemma dict_get_setdefault_other [simp]:
  "k' \<noteq> k \<Longrightarrow> dict_get (setdefault k v d) k' = dict_get d k'"
  by (simp add: setdefault_def)

lemma map_of_has_key: "has_key d k \<Longrightarrow> map_of d k = Some (dict_get d k)"
  by (auto simp: has_key_def dict_get_def)

lemma vaults_of_update_vaults [simp]: "vaults_of (AList.update ''vaults'' (JObj v) r) = v"
  by (simp add: vaults_of_def update_conv')

lemma vaults_of_update_active [simp]: "vaults_of (AList.update ''active'' a r) = vaults_of r"
  by (simp add: vaults_of_def update_conv')

lemma well_formed_default: "well_formed default_registry"
  by (simp add: well_formed_def default_registry_def has_key_def dict_get_def is_dict_def is_str_def)

lemma well_formed_coerced:
  "well_formed
     (let d1 = setdefault ''schema_version'' (JInt 1) d;
          d2 = setdefault ''vaults'' (JObj []) d1;
          d3 = setdefault ''active'' (JStr '''') d2;
          d4 = (if \<not> is_dict (dict_get d3 ''vaults'')
                then AList.update ''vaults'' (JObj []) d3 else d3);
          d5 = (if \<not> is_str (dict_get d4 ''active'')
                then AList.update ''active'' (JStr '''') d4 else d4)
      in d5)"
proof -
  define d3 where "d3 = setdefault ''active'' (JStr '''')
      (setdefault ''vaults'' (JObj []) (setdefault ''schema_version'' (JInt 1) d))"
  define d4 where "d4 = (if \<not> is_dict (dict_get d3 ''vaults'')
                then AList.update ''vaults'' (JObj []) d3 else d3)"
  define d5 where "d5 = (if \<not> is_str (dict_get d4 ''active'')
                then AList.update ''active'' (JStr '''') d4 else d4)"
  have k3: "has_key d3 ''schema_version''" "has_key d3 ''vaults''" "has_key d3 ''active''"
    by (simp_all add: d3_def)
  have k4: "has_key d4 ''schema_version''" "has_key d4 ''vaults''" "has_key d4 ''active''"
    and v4: "is_dict (dict_get d4 ''vaults'')"
    using k3 by (simp_all add: d4_def is_dict_def)
  have "has_key d5 ''schema_version''" "has_key d5 ''vaults''" "has_key d5 ''active''"
    "is_dict (dict_get d5 ''vaults'')" "is_str (dict_get d5 ''active'')"
    using k4 v4 by (simp_all add: d5_def is_str_def)
  then have "well_formed d5" by (simp add: well_formed_def)
  then show ?thesis unfolding Let_def d5_def d4_def d3_def .
qed

lemma well_formed_load_registry: "well_formed (load_registry h p)"
proof (cases "path_exists h p")
  case False
  then show ?thesis by (simp add: load_registry_def well_formed_default)
next
  case True
  show ?thesis
  proof (cases "read_text h p")
    case None
    with True show ?thesis by (simp add: load_registry_def well_formed_default)
  next
    case (Some body)
    show ?thesis
    proof (cases "json_decode h body")
      case None
      with True Some show ?thesis by (simp add: load_registry_def well_formed_default)
    next
      case decoded: (Some data)
      show ?thesis
      proof (cases data)
        case (JObj d)
        with True Some decoded show ?thesis
          by (simp only: load_registry_def well_formed_coerced option.case json.case if_False not_True_eq_False)
      qed (insert True Some decoded, simp_all add: load_registry_def well_formed_default)
    qed
  qed
qed

lemma well_formedD:
  assumes "well_formed r"
  obtains sv d a where "map_of r ''schema_version'' = Some sv"
    and "map_of r ''vaults'' = Some (JObj d)" and "map_of r ''active'' = Some (JStr a)"
proof -
  from assms have k: "has_key r ''schema_version''" "has_key r ''vaults''" "has_key r ''active''"
    and t: "is_dict (dict_get r ''vaults'')" "is_str (dict_get r ''active'')"
    by (simp_all add: well_formed_def)
  from t obtain d a where "dict_get r ''vaults'' = JObj d" "dict_get r ''active'' = JStr a"
    by (auto simp: is_dict_def is_str_def split: json.splits)
  with k that show ?thesis by (metis map_of_has_key)
qed


lemma active_ok_iff:
  "map_of r ''active'' = Some (JStr a) \<Longrightarrow> active_ok r \<longleftrightarrow> a = '''' \<or> has_key (vaults_of r) a"
  by (simp add: active_ok_def)

lemma map_of_update_vaults_active [simp]:
  "map_of (AList.update ''vaults'' v r) ''active'' = map_of r ''active''"
  by (simp add: update_conv')

lemma active_ok_update_active [simp]:
  "active_ok (AList.update ''active'' (JStr n) r) \<longleftrightarrow> n = '''' \<or> has_key (vaults_of r) n"
  by (simp add: active_ok_def update_conv')

lemma active_ok_update_vaults:
  assumes "map_of r ''active'' = Some (JStr a)"
  shows "active_ok (AList.update ''vaults'' (JObj v) r) \<longleftrightarrow> a = '''' \<or> has_key v a"
  using assms by (simp add: active_ok_def)

lemma loaded_registry:
  obtains d a where "map_of (load_registry h p) ''vaults'' = Some (JObj d)"
    and "map_of (load_registry h p) ''active'' = Some (JStr a)"
    and "vaults_of (load_registry h p) = d"
proof -
  obtain sv d a where "map_of (load_registry h p) ''schema_version'' = Some sv"
    and v: "map_of (load_registry h p) ''vaults'' = Some (JObj d)"
    and a: "map_of (load_registry h p) ''active'' = Some (JStr a)"
    by (rule well_formedD [OF well_formed_load_registry [of h p]])
  from v have "vaults_of (load_registry h p) = d" by (simp add: vaults_of_def)
  with v a that show ?thesis by blast
qed

lemma merge_entry_keeps_keys:
  "has_key (m_vaults st) n \<Longrightarrow> has_key (m_vaults (merge_entry h force entry st)) n"
  by (simp add: merge_entry_def Let_def)

lemma merge_found_keeps_keys:
  "has_key (m_vaults st) n \<Longrightarrow> has_key (m_vaults (merge_found h force found st)) n"
  by (induction found arbitrary: st) (simp_all add: merge_entry_keeps_keys)

lemma cmd_add_active_ok:
  assumes "active_ok (load_registry h p)" and "cmd_add h args p = Inr out" and "saved out = Some r'"
  shows "active_ok r'"
proof -
  obtain d a where v: "map_of (load_registry h p) ''vaults'' = Some (JObj d)"
    and a: "map_of (load_registry h p) ''active'' = Some (JStr a)"
    and vo: "vaults_of (load_registry h p) = d"
    by (rule loaded_registry)
  from assms(1) a vo have ok: "a = '''' \<or> has_key d a" by (simp add: active_ok_iff)
  from assms(2,3) obtain name rec where
    r': "r' = (if add_set_active args
               then AList.update ''active'' (JStr name)
                      (AList.update ''vaults'' (JObj (AList.update name rec d)) (load_registry h p))
               else AList.update ''vaults'' (JObj (AList.update name rec d)) (load_registry h p))"
    unfolding cmd_add_def Let_def vo
    by (auto simp: rejected_def accepted_def split: sum.splits if_splits py_error.splits)
  show ?thesis
  proof (cases "add_set_active args")
    case True
    with r' show ?thesis by simp
  next
    case False
    with r' ok show ?thesis by (auto simp: active_ok_update_vaults [OF a])
  qed
qed

lemma cmd_remove_active_ok:
  assumes "active_ok (load_registry h p)" and "cmd_remove h name p = Inr out" and "saved out = Some r'"
  shows "active_ok r'"
    and "dict_get (load_registry h p) ''active'' = JStr name \<Longrightarrow> dict_get r' ''active'' = JStr ''''"
proof -
  obtain d a where v: "map_of (load_registry h p) ''vaults'' = Some (JObj d)"
    and a: "map_of (load_registry h p) ''active'' = Some (JStr a)"
    and vo: "vaults_of (load_registry h p) = d"
    by (rule loaded_registry)
  from assms(1) a vo have ok: "a = '''' \<or> has_key d a" by (simp add: active_ok_iff)
  from a have ga: "dict_get (load_registry h p) ''active'' = JStr a" by (simp add: dict_get_def)
  from assms(2,3) have
    r': "r' = (if a = name
               then AList.update ''active'' (JStr '''')
                      (AList.update ''vaults'' (JObj (AList.delete name d)) (load_registry h p))
               else AList.update ''vaults'' (JObj (AList.delete name d)) (load_registry h p))"
    unfolding cmd_remove_def Let_def vo
    by (auto simp: rejected_def accepted_def ga split: if_splits)
  show "active_ok r'"
    using r' ok by (auto simp: active_ok_update_vaults [OF a])
  show "dict_get r' ''active'' = JStr ''''" if "dict_get (load_registry h p) ''active'' = JStr name"
    using that r' ga by simp
qed

lemma cmd_set_active_active_ok:
  assumes "cmd_set_active h name p = Inr out" and "saved out = Some r'"
  shows "active_ok r'"
  using assms unfolding cmd_set_active_def Let_def
  by (auto simp: rejected_def accepted_def split: if_splits)

lemma cmd_set_workdir_active_ok:
  assumes "active_ok (load_registry h p)" and "cmd_set_workdir h args p = Inr out" and "saved out = Some r'"
  shows "active_ok r'"
proof -
  obtain d a where v: "map_of (load_registry h p) ''vaults'' = Some (JObj d)"
    and a: "map_of (load_registry h p) ''active'' = Some (JStr a)"
    and vo: "vaults_of (load_registry h p) = d"
    by (rule loaded_registry)
  from assms(1) a vo have ok: "a = '''' \<or> has_key d a" by (simp add: active_ok_iff)
  from assms(2,3) obtain name info where
    "r' = AList.update ''vaults'' (JObj (AList.update name info d)) (load_registry h p)"
    unfolding cmd_set_workdir_def Let_def vo
    by (auto simp: rejected_def accepted_def split: sum.splits if_splits py_error.splits json.splits)
  with ok show ?thesis by (auto simp: active_ok_update_vaults [OF a])
qed

lemma cmd_discover_merge_active_ok:
  assumes "active_ok (load_registry h p)" and "cmd_discover_merge h force found p = Inr out"
    and "saved out = Some r'"
  shows "active_ok r'"
proof -
  obtain d a where v: "map_of (load_registry h p) ''vaults'' = Some (JObj d)"
    and a: "map_of (load_registry h p) ''active'' = Some (JStr a)"
    and vo: "vaults_of (load_registry h p) = d"
    by (rule loaded_registry)
  from assms(1) a vo have ok: "a = '''' \<or> has_key d a" by (simp add: active_ok_iff)
  define st where "st = merge_found h force found \<lparr>m_vaults = d, m_reads = 0, m_stderr = []\<rparr>"
  from assms(2,3) have r': "r' = AList.update ''vaults'' (JObj (m_vaults st)) (load_registry h p)"
    unfolding cmd_discover_merge_def Let_def vo st_def by auto
  from ok have "a = '''' \<or> has_key (m_vaults st) a"
    unfolding st_def using merge_found_keeps_keys [of "\<lparr>m_vaults = d, m_reads = 0, m_stderr = []\<rparr>" a h force found]
    by auto
  with r' show ?thesis by (simp add: active_ok_update_vaults [OF a])
qed

lemmas registry_eval =
  load_registry_def example_host_def setdefault_def has_key_def dict_get_def is_dict_def
  is_str_def vaults_of_def accepted_def rejected_def active_ok_def Let_def startswith_def

text \<open>
  C4. If the loaded registry has an \<open>active\<close> that is empty or a key of \<open>vaults\<close>, then
  so has the registry that \<open>add\<close>, \<open>remove\<close>, \<open>set-active\<close>, \<open>set-workdir\<close> or
  \<open>discover --merge\<close> saves; and \<open>remove\<close> of the active vault saves an empty
  \<open>active\<close>.
\<close>

theorem registry_commands_keep_active_valid:
  assumes "active_ok (load_registry h reg_path)"
      and "run_command h op reg_path = Inr out" and "saved out = Some registry'"
  shows "active_ok registry'
         \<and> (\<forall>name. op = Remove name \<and> dict_get (load_registry h reg_path) ''active'' = JStr name
                \<longrightarrow> dict_get registry' ''active'' = JStr '''')"
proof (cases op)
  case (Add args)
  with assms show ?thesis by (simp add: cmd_add_active_ok)
next
  case (Remove name)
  with assms show ?thesis by (simp add: cmd_remove_active_ok)
next
  case (SetActive name)
  with assms show ?thesis by (simp add: cmd_set_active_active_ok)
next
  case (SetWorkdir args)
  with assms show ?thesis by (simp add: cmd_set_workdir_active_ok)
next
  case (DiscoverMerge force found)
  with assms show ?thesis by (simp add: cmd_discover_merge_active_ok)
qed

lemma example_registry_loaded:
  "load_registry example_registry_host ''/data/vaults.json''
     = [(''schema_version'', JInt 1),
        (''vaults'', JObj [(''work'', JObj [(''path'', JStr ''/v/work'')]),
                           (''home'', JObj [(''path'', JStr ''/v/home'')])]),
        (''active'', JStr ''work'')]"
  by (simp add: registry_eval json_eval example_registry_text_def example_registry_host_def)

theorem registry_commands_keep_active_valid_witness:
  "active_ok (load_registry example_registry_host ''/data/vaults.json'')
   \<and> run_command example_registry_host (Remove ''work'') ''/data/vaults.json''
        = Inr \<lparr>returned = 0,
               saved = Some [(''schema_version'', JInt 1),
                             (''vaults'', JObj [(''home'', JObj [(''path'', JStr ''/v/home'')])]),
                             (''active'', JStr '''')],
               to_stderr = []\<rparr>
   \<and> active_ok [(''schema_version'', JInt 1),
                 (''vaults'', JObj [(''home'', JObj [(''path'', JStr ''/v/home'')])]),
                 (''active'', JStr '''')]"
proof -
  let ?r' = "[(''schema_version'', JInt 1),
              (''vaults'', JObj [(''home'', JObj [(''path'', JStr ''/v/home'')])]),
              (''active'', JStr '''')]"
  let ?out = "\<lparr>returned = 0, saved = Some ?r', to_stderr = []\<rparr>"
  have 1: "active_ok (load_registry example_registry_host ''/data/vaults.json'')"
    by (simp add: example_registry_loaded active_ok_def vaults_of_def has_key_def)
  have 2: "run_command example_registry_host (Remove ''work'') ''/data/vaults.json'' = Inr ?out"
    by (simp add: cmd_remove_def example_registry_loaded vaults_of_def has_key_def dict_get_def
        accepted_def Let_def)
  have 3: "saved ?out = Some ?r'" by simp
  from registry_commands_keep_active_valid [OF 1 2 3] have "active_ok ?r'" by simp
  with 1 2 show ?thesis by simp
qed





section \<open>The merge\<close>




















end
